theory Spec2Isabelle
  imports Main "HOL-Library.AList"
begin

section \<open>JavaScript values as the bridge sees them\<close>

text \<open>
  The bridge (\<^verbatim>\<open>src/index.ts\<close>) moves JSON between an HTTP interface and Socket.IO
  connections. Request bodies, acknowledgements and pushed monitors are typed \<^verbatim>\<open>any\<close> in the
  source, so they are modelled as JSON values; \<^verbatim>\<open>undefined\<close> is \<open>None\<close> of
  \<open>json option\<close>. Numbers are the integers (JavaScript prints them in plain decimal
  below \<open>10^21\<close> in magnitude, which is how \<open>to_string\<close> prints every integer).

  A JavaScript object is an association list of its own enumerable properties in
  enumeration order: reading a property is \<open>map_of\<close>, writing one is
  \<open>AList.update\<close> (in place when the key exists, at the end otherwise), \<^verbatim>\<open>delete\<close> is
  \<open>AList.delete\<close> and \<^verbatim>\<open>Object.values\<close> is \<open>map snd\<close>. JavaScript enumerates
  integer-like keys before the others; that reordering is not modelled. Nor are the names
  that the registry, a plain object, inherits from \<^verbatim>\<open>Object.prototype\<close> modelled as its keys.
\<close>

datatype json =
    JNull
  | JBool bool
  | JNum int
  | JStr string
  | JArr "json list"
  | JObj "(string \<times> json) list"

type_synonym 'v object = "(string \<times> 'v) list"

text \<open>
  The exceptions the bridge can raise: JavaScript's TypeError and RangeError, and the error
  with which Express refuses a write to a response that has been sent
  (\<^verbatim>\<open>ERR_HTTP_HEADERS_SENT\<close>). None is caught.
\<close>

datatype error = TypeError | RangeError | HeadersSent

text \<open>\<^verbatim>\<open>!v\<close> is \<open>\<not> truthy v\<close>.\<close>

fun truthy :: "json option \<Rightarrow> bool" where
  "truthy None = False"
| "truthy (Some JNull) = False"
| "truthy (Some (JBool b)) = b"
| "truthy (Some (JNum n)) = (n \<noteq> 0)"
| "truthy (Some (JStr s)) = (s \<noteq> [])"
| "truthy (Some (JArr xs)) = True"
| "truthy (Some (JObj fs)) = True"

text \<open>
  \<^verbatim>\<open>v.k\<close> for the property names the bridge reads (\<^verbatim>\<open>id\<close>, \<^verbatim>\<open>type\<close>, \<^verbatim>\<open>name\<close>, \<^verbatim>\<open>ok\<close>):
  a TypeError on \<^verbatim>\<open>undefined\<close> and \<^verbatim>\<open>null\<close>, the own property of an object, and
  \<^verbatim>\<open>undefined\<close> on a primitive or an array, which have no property of those names.
\<close>

fun get_prop :: "json option \<Rightarrow> string \<Rightarrow> error + json option" where
  "get_prop None k = Inl TypeError"
| "get_prop (Some JNull) k = Inl TypeError"
| "get_prop (Some (JObj fs)) k = Inr (map_of fs k)"
| "get_prop (Some v) k = Inr None"

text \<open>\<^verbatim>\<open>a ?? {}\<close>\<close>

fun nullish_default :: "json option \<Rightarrow> json" where
  "nullish_default None = JObj []"
| "nullish_default (Some JNull) = JObj []"
| "nullish_default (Some v) = v"

text \<open>JavaScript's ToString, which turns a value used as a property key into the key.\<close>

definition digit_char :: "nat \<Rightarrow> char" where
  "digit_char n = ''0123456789'' ! (n mod 10)"

function digits :: "nat \<Rightarrow> string" where
  "digits n = (if n < 10 then [digit_char n] else digits (n div 10) @ [digit_char (n mod 10)])"
  by pat_completeness auto
termination
  by (relation "measure id") auto

fun join :: "string \<Rightarrow> string list \<Rightarrow> string" where
  "join sep [] = []"
| "join sep [x] = x"
| "join sep (x # y # ys) = x @ sep @ join sep (y # ys)"

fun to_string :: "json \<Rightarrow> string" where
  "to_string JNull = ''null''"
| "to_string (JBool b) = (if b then ''true'' else ''false'')"
| "to_string (JNum n) = (if n < 0 then CHR ''-'' # digits (nat (- n)) else digits (nat n))"
| "to_string (JStr s) = s"
| "to_string (JArr xs) =
     join '','' (map (\<lambda>x. case x of JNull \<Rightarrow> [] | _ \<Rightarrow> to_string x) xs)"
| "to_string (JObj fs) = ''[object Object]''"

fun to_key :: "json option \<Rightarrow> string" where
  "to_key None = ''undefined''"
| "to_key (Some v) = to_string v"

text \<open>
  An object literal as \<^verbatim>\<open>res.json\<close> sends it: \<^verbatim>\<open>JSON.stringify\<close> leaves out a property
  whose value is \<^verbatim>\<open>undefined\<close>.
\<close>

fun json_object :: "(string \<times> json option) list \<Rightarrow> json" where
  "json_object fs = JObj (concat (map (\<lambda>(k, v). case v of None \<Rightarrow> [] | Some x \<Rightarrow> [(k, x)]) fs))"


section \<open>The monitor cache and its three push handlers\<close>

text \<open>
  \<^verbatim>\<open>sockets[uri].monitors\<close> has the declared type \<^verbatim>\<open>{ [id: string]: any }\<close>. The three
  listeners of \<^verbatim>\<open>connectSocket\<close> that write it are, on the cache alone:
  \<^verbatim>\<open>
    socket.on("monitorList", (data) => { sockets[uri].monitors = data })
    socket.on("updateMonitorIntoList", (data) => {
      data = Object.values(data)[0]
      console.log("...", data.id)
      sockets[uri].monitors[data.id] = data })
    socket.on("deleteMonitorFromList", (monitorId) => {
      delete sockets[uri].monitors[monitorId] })
  \<close>
\<close>

type_synonym cache = "json object"

datatype push =
    MonitorList "json object"
  | UpdateMonitorIntoList "json object"
  | DeleteMonitorFromList json

text \<open>\<^verbatim>\<open>Object.values(data)[0]\<close>: \<^verbatim>\<open>undefined\<close> on an empty envelope.\<close>

definition first_value :: "json object \<Rightarrow> json option" where
  "first_value data = (case map snd data of [] \<Rightarrow> None | v # vs \<Rightarrow> Some v)"

text \<open>
  The entry is created with \<^verbatim>\<open>monitors: []\<close>, an Array, and a pushed monitor list replaces
  it by the pushed object. The state of a cache is therefore a flag, whether it is still
  that Array, and its own enumerable properties. Two keys are not plain there:
  \<^item> \<^verbatim>\<open>length\<close> on the Array is the array's length. \<^verbatim>\<open>monitors[data.id] = data\<close> with that
    key raises a RangeError (\<^verbatim>\<open>data\<close> has an \<^verbatim>\<open>id\<close>, so it is an object, and an object
    is no array length), and \<^verbatim>\<open>delete\<close> of it raises a TypeError (the property is not
    configurable, and the source is module code, which is strict).
  \<^item> \<^verbatim>\<open>__proto__\<close>, on an object without an own property of that name, is the accessor of
    the prototype: the assignment sets the prototype of the cache and stores no property.
    (A pushed monitor list can bring an own property of that name; it is then written
    and deleted like any other.)
\<close>

definition set_monitor :: "string \<Rightarrow> json \<Rightarrow> bool \<times> cache \<Rightarrow> error + bool \<times> cache" where
  "set_monitor k d st =
     (case st of
        (is_array, c) \<Rightarrow>
          if is_array \<and> k = ''length'' then Inl RangeError
          else if k = ''__proto__'' \<and> map_of c k = None then Inr (is_array, c)
          else Inr (is_array, AList.update k d c))"

definition delete_monitor :: "string \<Rightarrow> bool \<times> cache \<Rightarrow> error + bool \<times> cache" where
  "delete_monitor k st =
     (case st of
        (is_array, c) \<Rightarrow>
          if is_array \<and> k = ''length'' then Inl TypeError
          else Inr (is_array, AList.delete k c))"

fun apply_push :: "push \<Rightarrow> bool \<times> cache \<Rightarrow> error + bool \<times> cache" where
  "apply_push (MonitorList data) st = Inr (False, data)"
| "apply_push (UpdateMonitorIntoList data) st =
     (case first_value data of
        None \<Rightarrow> Inl TypeError
      | Some d \<Rightarrow>
          (case get_prop (Some d) ''id'' of
             Inl e \<Rightarrow> Inl e
           | Inr i \<Rightarrow> set_monitor (to_key i) d st))"
| "apply_push (DeleteMonitorFromList monitorId) st = delete_monitor (to_key (Some monitorId)) st"

text \<open>Pushes applied in arrival order; an uncaught exception ends the run.\<close>

fun apply_pushes :: "push list \<Rightarrow> bool \<times> cache \<Rightarrow> error + bool \<times> cache" where
  "apply_pushes [] st = Inr st"
| "apply_pushes (p # ps) st =
     (case apply_push p st of Inl e \<Rightarrow> Inl e | Inr st' \<Rightarrow> apply_pushes ps st')"

subsection \<open>The reference mapping of the specification\<close>

text \<open>
  The specification's cache is a mapping from entity ID to entity, "replaced wholesale on
  a full-list push, upserted on a single-entity push, removed on a delete push". The
  entity ID of an entity is its \<^verbatim>\<open>id\<close> as a key. An upsert whose envelope does not hold
  exactly one value is outside the transport interface; the reference leaves the mapping
  as it is there.
\<close>

definition entity_id :: "json \<Rightarrow> string" where
  "entity_id e = (case e of JObj fs \<Rightarrow> to_key (map_of fs ''id'') | _ \<Rightarrow> to_key None)"

fun reference_apply :: "push \<Rightarrow> (string \<rightharpoonup> json) \<Rightarrow> (string \<rightharpoonup> json)" where
  "reference_apply (MonitorList data) m = map_of data"
| "reference_apply (UpdateMonitorIntoList [(k, e)]) m = m(entity_id e \<mapsto> e)"
| "reference_apply (UpdateMonitorIntoList data) m = m"
| "reference_apply (DeleteMonitorFromList monitorId) m = m(to_key (Some monitorId) := None)"

fun reference_replay :: "push list \<Rightarrow> (string \<rightharpoonup> json) \<Rightarrow> (string \<rightharpoonup> json)" where
  "reference_replay [] m = m"
| "reference_replay (p # ps) m = reference_replay ps (reference_apply p m)"

text \<open>
  A push as the transport interface has it: the envelope of an upsert holds exactly one
  value, and it is not \<^verbatim>\<open>null\<close>.
\<close>

fun well_formed :: "push \<Rightarrow> bool" where
  "well_formed (UpdateMonitorIntoList [(k, e)]) = (e \<noteq> JNull)"
| "well_formed (UpdateMonitorIntoList data) = False"
| "well_formed p = True"

text \<open>
  The pushes that name no key which is not plain on the cache they reach: no upsert of the
  id \<^verbatim>\<open>__proto__\<close>, and neither upsert nor delete of \<^verbatim>\<open>length\<close> while the cache is still
  the Array of the new entry, that is before the first monitor list.
\<close>

fun plain_key :: "bool \<Rightarrow> push \<Rightarrow> bool" where
  "plain_key is_array (MonitorList data) = True"
| "plain_key is_array (UpdateMonitorIntoList [(k, e)]) =
     (entity_id e \<noteq> ''__proto__'' \<and> \<not> (is_array \<and> entity_id e = ''length''))"
| "plain_key is_array (UpdateMonitorIntoList data) = True"
| "plain_key is_array (DeleteMonitorFromList monitorId) =
     (\<not> (is_array \<and> to_key (Some monitorId) = ''length''))"

fun still_array :: "bool \<Rightarrow> push \<Rightarrow> bool" where
  "still_array is_array (MonitorList data) = False"
| "still_array is_array p = is_array"

fun plain_pushes :: "bool \<Rightarrow> push list \<Rightarrow> bool" where
  "plain_pushes is_array [] = True"
| "plain_pushes is_array (p # ps) =
     (well_formed p \<and> plain_key is_array p \<and> plain_pushes (still_array is_array p) ps)"


section \<open>The query handlers' reads of the cache\<close>

text \<open>
  \<^verbatim>\<open>
    res.json(Object.values(sockets[uri].monitors))           // POST /monitors
    res.json(Object.values(sockets[uri].monitors)            // POST /groups
      .filter((m) => m.type === "group")
      .map((group) => ({ id: group.id, name: group.name })))
  \<close>
\<close>

definition list_entities :: "cache \<Rightarrow> json list" where
  "list_entities c = map snd c"

text \<open>\<^verbatim>\<open>.filter((m) => m.type === "group")\<close>, raising where \<^verbatim>\<open>m.type\<close> raises.\<close>

fun filter_groups :: "json list \<Rightarrow> error + json list" where
  "filter_groups [] = Inr []"
| "filter_groups (m # ms) =
     (case get_prop (Some m) ''type'' of
        Inl e \<Rightarrow> Inl e
      | Inr t \<Rightarrow>
          (case filter_groups ms of
             Inl e \<Rightarrow> Inl e
           | Inr gs \<Rightarrow> Inr (if t = Some (JStr ''group'') then m # gs else gs)))"

text \<open>\<^verbatim>\<open>.map((group) => ({ id: group.id, name: group.name }))\<close>\<close>

fun project_groups :: "json list \<Rightarrow> error + json list" where
  "project_groups [] = Inr []"
| "project_groups (g # gs) =
     (case get_prop (Some g) ''id'' of
        Inl e \<Rightarrow> Inl e
      | Inr i \<Rightarrow>
          (case get_prop (Some g) ''name'' of
             Inl e \<Rightarrow> Inl e
           | Inr n \<Rightarrow>
               (case project_groups gs of
                  Inl e \<Rightarrow> Inl e
                | Inr ps \<Rightarrow> Inr (json_object [(''id'', i), (''name'', n)] # ps))))"

definition list_groups :: "cache \<Rightarrow> error + json list" where
  "list_groups c =
     (case filter_groups (list_entities c) of
        Inl e \<Rightarrow> Inl e
      | Inr gs \<Rightarrow> project_groups gs)"

subsection \<open>The specification's reading of \<open>listGroups\<close>\<close>





section \<open>The process state\<close>

text \<open>
  The process is single-threaded: its state changes only in the synchronous part of an HTTP
  handler, in the continuation after an \<^verbatim>\<open>await\<close>, and in the callbacks of timers and of
  the Socket.IO client. Each of them is a function on the state below, and \<open>step\<close> runs
  one of them. A callback the runtime would not call (a cleared timer, the continuation of
  a promise still pending, an acknowledgement nobody waits for) leaves the state as it is.

  \<^item> \<open>sockets\<close> is the registry \<^verbatim>\<open>const sockets: { [uri: string]: { socket, monitors } }\<close>
    (\<open>monitors_is_array\<close> says whether \<^verbatim>\<open>monitors\<close> is still the Array of the new entry);
  \<^item> \<open>socks\<close> are the \<^verbatim>\<open>Socket\<close> objects that \<^verbatim>\<open>io(uri, ...)\<close> has returned, each with
    what the closures of its listeners captured (\<^verbatim>\<open>uri\<close>, \<^verbatim>\<open>credentials\<close>, and the
    \<^verbatim>\<open>resolve\<close>/\<^verbatim>\<open>reject\<close> of the promise of the call that created it);
  \<^item> \<open>promises\<close> are the promises that the calls of \<^verbatim>\<open>connectSocket\<close> returned;
  \<^item> \<open>requests\<close> are the HTTP requests received, each with its response object
    \<^verbatim>\<open>res\<close> (the response sent, as status and body, if one has been: a list of at most
    one element) and its \<^verbatim>\<open>timeoutTimer\<close>.
\<close>

type_synonym sock_id = nat
type_synonym promise_id = nat
type_synonym req_id = nat

datatype promise = Pending | Fulfilled sock_id | Rejected json

record sock =
  connected :: bool
  sock_uri :: "json option"
  sock_credentials :: "json option"
  sock_promise :: promise_id
  emitted :: "(json option \<times> json option) list"
  logins_pending :: nat

record entry =
  socket :: sock_id
  monitors :: cache
  monitors_is_array :: bool

datatype endpoint = Emit | Monitors | Groups

datatype timer = NoTimer | Armed json | Cleared | Fired

datatype phase = AwaitConnect promise_id | AwaitAck | Finished | Aborted

record request =
  endpoint :: endpoint
  req_uri :: "json option"
  req_event :: "json option"
  req_payload :: "json option"
  res :: "(nat \<times> json) list"
  timeoutTimer :: timer
  phase :: phase

record world =
  sockets :: "entry object"
  socks :: "sock list"
  promises :: "promise list"
  requests :: "request list"

definition init_world :: world where
  "init_world = \<lparr>sockets = [], socks = [], promises = [], requests = []\<rparr>"

definition nth_opt :: "'a list \<Rightarrow> nat \<Rightarrow> 'a option" where
  "nth_opt xs i = (if i < length xs then Some (xs ! i) else None)"

definition set_request :: "req_id \<Rightarrow> request \<Rightarrow> world \<Rightarrow> world" where
  "set_request r q w = w\<lparr>requests := (requests w)[r := q]\<rparr>"

definition set_sock :: "sock_id \<Rightarrow> sock \<Rightarrow> world \<Rightarrow> world" where
  "set_sock s x w = w\<lparr>socks := (socks w)[s := x]\<rparr>"

text \<open>\<^verbatim>\<open>resolve\<close> and \<^verbatim>\<open>reject\<close>: a promise settles once, and a later call does nothing.\<close>

definition settle :: "promise_id \<Rightarrow> promise \<Rightarrow> world \<Rightarrow> world" where
  "settle p v w =
     (if nth_opt (promises w) p = Some Pending
      then w\<lparr>promises := (promises w)[p := v]\<rparr> else w)"


section \<open>connectSocket and the listeners it registers\<close>

text \<open>
  \<^verbatim>\<open>
    return new Promise((resolve, reject) => {
      if (sockets[uri]) { return resolve(sockets[uri].socket) }
      const socket = io(uri, { transports: ["websocket"], reconnection: true })
      sockets[uri] = { socket, monitors: [] }
      socket.on(...) ...
    })
  \<close>
  The executor runs synchronously. The result is the new promise and the state.
\<close>

definition connectSocket :: "json option \<Rightarrow> json option \<Rightarrow> world \<Rightarrow> promise_id \<times> world" where
  "connectSocket uri credentials w =
     (let p = length (promises w) in
      case map_of (sockets w) (to_key uri) of
        Some e \<Rightarrow> (p, w\<lparr>promises := promises w @ [Fulfilled (socket e)]\<rparr>)
      | None \<Rightarrow>
          (let s = length (socks w) in
           (p, w\<lparr>sockets := AList.update (to_key uri) \<lparr>socket = s, monitors = [], monitors_is_array = True\<rparr> (sockets w),
                 socks := socks w @
                   [\<lparr>connected = False, sock_uri = uri, sock_credentials = credentials,
                     sock_promise = p, emitted = [], logins_pending = 0\<rparr>],
                 promises := promises w @ [Pending]\<rparr>)))"

text \<open>\<^verbatim>\<open>socket.on("connect", ...)\<close>: the client sets \<^verbatim>\<open>socket.connected\<close>; the listener logs.\<close>

definition on_connect :: "sock_id \<Rightarrow> world \<Rightarrow> world" where
  "on_connect s w =
     (case nth_opt (socks w) s of
        None \<Rightarrow> w
      | Some x \<Rightarrow> set_sock s (x\<lparr>connected := True\<rparr>) w)"

text \<open>\<^verbatim>\<open>socket.on("disconnect", (reason) => { ...; reject(reason) })\<close>\<close>

definition on_disconnect :: "sock_id \<Rightarrow> json \<Rightarrow> world \<Rightarrow> world" where
  "on_disconnect s reason w =
     (case nth_opt (socks w) s of
        None \<Rightarrow> w
      | Some x \<Rightarrow> settle (sock_promise x) (Rejected reason) (set_sock s (x\<lparr>connected := False\<rparr>) w))"

text \<open>
  The three listeners of the monitor cache, on \<^verbatim>\<open>sockets[uri].monitors\<close>; reading
  \<^verbatim>\<open>sockets[uri]\<close> raises when the registry has no entry for \<^verbatim>\<open>uri\<close>.
\<close>

definition on_push :: "sock_id \<Rightarrow> push \<Rightarrow> world \<Rightarrow> error + world" where
  "on_push s p w =
     (case nth_opt (socks w) s of
        None \<Rightarrow> Inr w
      | Some x \<Rightarrow>
          (case map_of (sockets w) (to_key (sock_uri x)) of
             None \<Rightarrow> Inl TypeError
           | Some e \<Rightarrow>
               (case apply_push p (monitors_is_array e, monitors e) of
                  Inl err \<Rightarrow> Inl err
                | Inr (is_array, c) \<Rightarrow>
                    Inr (w\<lparr>sockets :=
                      AList.update (to_key (sock_uri x))
                        (e\<lparr>monitors := c, monitors_is_array := is_array\<rparr>) (sockets w)\<rparr>))))"

text \<open>
  \<^verbatim>\<open>
    socket.on("loginRequired", () => {
      socket.emit("login", credentials, (response: any) => {
        if (response.ok) { return resolve(socket) }
        reject("Login failed") }) })
  \<close>
\<close>

definition on_login_required :: "sock_id \<Rightarrow> world \<Rightarrow> world" where
  "on_login_required s w =
     (case nth_opt (socks w) s of
        None \<Rightarrow> w
      | Some x \<Rightarrow>
          set_sock s (x\<lparr>emitted := emitted x @ [(Some (JStr ''login''), sock_credentials x)],
                        logins_pending := logins_pending x + 1\<rparr>) w)"

definition login_ack :: "sock_id \<Rightarrow> json option \<Rightarrow> world \<Rightarrow> error + world" where
  "login_ack s response w =
     (case nth_opt (socks w) s of
        None \<Rightarrow> Inr w
      | Some x \<Rightarrow>
          if logins_pending x = 0 then Inr w
          else
            (case get_prop response ''ok'' of
               Inl e \<Rightarrow> Inl e
             | Inr ok \<Rightarrow>
                 Inr (settle (sock_promise x)
                        (if truthy ok then Fulfilled s else Rejected (JStr ''Login failed''))
                        (set_sock s (x\<lparr>logins_pending := logins_pending x - 1\<rparr>) w))))"


section \<open>The HTTP handlers\<close>

text \<open>
  Each handler is split at its \<^verbatim>\<open>await connectSocket(uri, credentials)\<close>: \<open>post_*\<close> is
  the part that runs when the request arrives, \<open>*_resume\<close> the continuation once the
  promise is fulfilled with a socket.
\<close>

definition emit_required :: json where
  "emit_required =
     JObj [(''error'', JStr ''`uri`, `credentials`, `event`, and `payload` are required'')]"

definition uri_required :: json where
  "uri_required = JObj [(''error'', JStr ''`uri` and `credentials` are required'')]"

definition disconnected :: json where
  "disconnected = JObj [(''error'', JStr ''Socket.IO disconnected'')]"

text \<open>
  \<^verbatim>\<open>
    const { uri, credentials, event, payload, timeout = 5000 } = req.body
    if (!uri || !credentials || !event || !payload) { return res.status(400).json({...}) }
    const timeoutTimer = setTimeout(() => {...}, timeout)
    const socket = await connectSocket(uri, credentials)
  \<close>
\<close>

definition post_emit :: "json object \<Rightarrow> world \<Rightarrow> world" where
  "post_emit body w =
     (let uri = map_of body ''uri'';
          credentials = map_of body ''credentials'';
          event = map_of body ''event'';
          payload = map_of body ''payload'';
          timeout = (case map_of body ''timeout'' of None \<Rightarrow> JNum 5000 | Some t \<Rightarrow> t)
      in
        if \<not> truthy uri \<or> \<not> truthy credentials \<or> \<not> truthy event \<or> \<not> truthy payload
        then w\<lparr>requests := requests w @
               [\<lparr>endpoint = Emit, req_uri = uri, req_event = event, req_payload = payload,
                 res = [(400, emit_required)], timeoutTimer = NoTimer, phase = Finished\<rparr>]\<rparr>
        else
          (case connectSocket uri credentials w of
             (p, w') \<Rightarrow>
               w'\<lparr>requests := requests w' @
                 [\<lparr>endpoint = Emit, req_uri = uri, req_event = event, req_payload = payload,
                   res = [], timeoutTimer = Armed timeout, phase = AwaitConnect p\<rparr>]\<rparr>))"

text \<open>
  \<^verbatim>\<open>
    const { uri, credentials } = req.body
    if (!uri || !credentials) { return res.status(400).json({...}) }
    const socket = await connectSocket(uri, credentials)
  \<close>
  in \<^verbatim>\<open>POST /monitors\<close> and in \<^verbatim>\<open>POST /groups\<close>.
\<close>

definition post_query :: "endpoint \<Rightarrow> json object \<Rightarrow> world \<Rightarrow> world" where
  "post_query ep body w =
     (let uri = map_of body ''uri'';
          credentials = map_of body ''credentials''
      in
        if \<not> truthy uri \<or> \<not> truthy credentials
        then w\<lparr>requests := requests w @
               [\<lparr>endpoint = ep, req_uri = uri, req_event = None, req_payload = None,
                 res = [(400, uri_required)], timeoutTimer = NoTimer, phase = Finished\<rparr>]\<rparr>
        else
          (case connectSocket uri credentials w of
             (p, w') \<Rightarrow>
               w'\<lparr>requests := requests w' @
                 [\<lparr>endpoint = ep, req_uri = uri, req_event = None, req_payload = None,
                   res = [], timeoutTimer = NoTimer, phase = AwaitConnect p\<rparr>]\<rparr>))"

definition post_monitors :: "json object \<Rightarrow> world \<Rightarrow> world" where
  "post_monitors body w = post_query Monitors body w"

definition post_groups :: "json object \<Rightarrow> world \<Rightarrow> world" where
  "post_groups body w = post_query Groups body w"

text \<open>
  \<^verbatim>\<open>
    if (!socket.connected) { return res.status(503).json({ error: "Socket.IO disconnected" }) }
    socket.emit(event, payload ?? {}, (ack: any) => {...})
  \<close>
\<close>

text \<open>
  \<^verbatim>\<open>res.status(n).json(body)\<close> and \<^verbatim>\<open>res.json(body)\<close> (status 200): the response is sent
  if none has been; on a response already sent, Express raises and the response stays as
  it was sent.
\<close>

definition respond :: "nat \<Rightarrow> json \<Rightarrow> request \<Rightarrow> error + request" where
  "respond status body q =
     (if res q = [] then Inr (q\<lparr>res := res q @ [(status, body)]\<rparr>) else Inl HeadersSent)"

definition emit_resume :: "req_id \<Rightarrow> request \<Rightarrow> sock_id \<Rightarrow> world \<Rightarrow> error + world" where
  "emit_resume r q s w =
     (case nth_opt (socks w) s of
        None \<Rightarrow> Inr w
      | Some x \<Rightarrow>
          if \<not> connected x
          then
            (case respond 503 disconnected q of
               Inl err \<Rightarrow> Inl err
             | Inr q' \<Rightarrow> Inr (set_request r (q'\<lparr>phase := Finished\<rparr>) w))
          else Inr (set_request r (q\<lparr>phase := AwaitAck\<rparr>)
                 (set_sock s
                    (x\<lparr>emitted := emitted x @
                         [(req_event q, Some (nullish_default (req_payload q)))]\<rparr>) w)))"

text \<open>
  \<^verbatim>\<open>
    if (!socket.connected) { return res.status(503).json({ error: "Socket.IO disconnected" }) }
    res.json(Object.values(sockets[uri].monitors))
  \<close>
\<close>

definition monitors_resume :: "req_id \<Rightarrow> request \<Rightarrow> sock_id \<Rightarrow> world \<Rightarrow> error + world" where
  "monitors_resume r q s w =
     (case nth_opt (socks w) s of
        None \<Rightarrow> Inr w
      | Some x \<Rightarrow>
          if \<not> connected x
          then
            (case respond 503 disconnected q of
               Inl err \<Rightarrow> Inl err
             | Inr q' \<Rightarrow> Inr (set_request r (q'\<lparr>phase := Finished\<rparr>) w))
          else
            (case map_of (sockets w) (to_key (req_uri q)) of
               None \<Rightarrow> Inl TypeError
             | Some e \<Rightarrow>
                 (case respond 200 (JArr (list_entities (monitors e))) q of
                    Inl err \<Rightarrow> Inl err
                  | Inr q' \<Rightarrow> Inr (set_request r (q'\<lparr>phase := Finished\<rparr>) w))))"

definition groups_resume :: "req_id \<Rightarrow> request \<Rightarrow> sock_id \<Rightarrow> world \<Rightarrow> error + world" where
  "groups_resume r q s w =
     (case nth_opt (socks w) s of
        None \<Rightarrow> Inr w
      | Some x \<Rightarrow>
          if \<not> connected x
          then
            (case respond 503 disconnected q of
               Inl err \<Rightarrow> Inl err
             | Inr q' \<Rightarrow> Inr (set_request r (q'\<lparr>phase := Finished\<rparr>) w))
          else
            (case map_of (sockets w) (to_key (req_uri q)) of
               None \<Rightarrow> Inl TypeError
             | Some e \<Rightarrow>
                 (case list_groups (monitors e) of
                    Inl err \<Rightarrow> Inl err
                  | Inr gs \<Rightarrow>
                      (case respond 200 (JArr gs) q of
                         Inl err \<Rightarrow> Inl err
                       | Inr q' \<Rightarrow> Inr (set_request r (q'\<lparr>phase := Finished\<rparr>) w)))))"

text \<open>
  The continuation of a request waiting at its \<^verbatim>\<open>await\<close>. When the promise was rejected
  the \<^verbatim>\<open>await\<close> throws, and the handler ends without writing a response.
\<close>

definition resume :: "req_id \<Rightarrow> world \<Rightarrow> error + world" where
  "resume r w =
     (case nth_opt (requests w) r of
        None \<Rightarrow> Inr w
      | Some q \<Rightarrow>
          (case phase q of
             AwaitConnect p \<Rightarrow>
               (case nth_opt (promises w) p of
                  None \<Rightarrow> Inr w
                | Some Pending \<Rightarrow> Inr w
                | Some (Rejected reason) \<Rightarrow> Inr (set_request r (q\<lparr>phase := Aborted\<rparr>) w)
                | Some (Fulfilled s) \<Rightarrow>
                    (case endpoint q of
                       Emit \<Rightarrow> emit_resume r q s w
                     | Monitors \<Rightarrow> monitors_resume r q s w
                     | Groups \<Rightarrow> groups_resume r q s w))
           | _ \<Rightarrow> Inr w))"

text \<open>
  \<^verbatim>\<open>setTimeout(() => { res.status(504).json({ error: "ACK timeout", event }) }, timeout)\<close>:
  the callback runs once, and only while the timer is armed.
\<close>

definition timer_fires :: "req_id \<Rightarrow> world \<Rightarrow> error + world" where
  "timer_fires r w =
     (case nth_opt (requests w) r of
        None \<Rightarrow> Inr w
      | Some q \<Rightarrow>
          (case timeoutTimer q of
             Armed t \<Rightarrow>
               (case respond 504 (json_object [(''error'', Some (JStr ''ACK timeout'')),
                                               (''event'', req_event q)]) q of
                  Inl err \<Rightarrow> Inl err
                | Inr q' \<Rightarrow> Inr (set_request r (q'\<lparr>timeoutTimer := Fired\<rparr>) w))
           | _ \<Rightarrow> Inr w))"

text \<open>\<^verbatim>\<open>clearTimeout(timeoutTimer)\<close>\<close>

fun clearTimeout :: "timer \<Rightarrow> timer" where
  "clearTimeout (Armed t) = Cleared"
| "clearTimeout x = x"

text \<open>
  \<^verbatim>\<open>
    (ack: any) => {
      clearTimeout(timeoutTimer)
      if (!ack.ok) { return res.status(400).json(ack) }
      res.json(ack) }
  \<close>
  The client calls the acknowledgement callback of an emit at most once.
\<close>

definition emit_ack :: "req_id \<Rightarrow> json option \<Rightarrow> world \<Rightarrow> error + world" where
  "emit_ack r ack w =
     (case nth_opt (requests w) r of
        None \<Rightarrow> Inr w
      | Some q \<Rightarrow>
          if phase q \<noteq> AwaitAck then Inr w
          else
            (case ack of
               None \<Rightarrow> Inl TypeError
             | Some a \<Rightarrow>
                 (case get_prop (Some a) ''ok'' of
                    Inl e \<Rightarrow> Inl e
                  | Inr ok \<Rightarrow>
                      (case respond (if \<not> truthy ok then 400 else 200) a q of
                         Inl err \<Rightarrow> Inl err
                       | Inr q' \<Rightarrow>
                           Inr (set_request r
                                  (q'\<lparr>timeoutTimer := clearTimeout (timeoutTimer q),
                                      phase := Finished\<rparr>) w)))))"


section \<open>The event loop\<close>

datatype event =
    Post endpoint "json object"
  | Resume req_id
  | TimerFires req_id
  | Ack req_id "json option"
  | Connect sock_id
  | Disconnect sock_id json
  | Push sock_id push
  | LoginRequired sock_id
  | LoginAck sock_id "json option"

fun step :: "event \<Rightarrow> world \<Rightarrow> error + world" where
  "step (Post Emit body) w = Inr (post_emit body w)"
| "step (Post Monitors body) w = Inr (post_monitors body w)"
| "step (Post Groups body) w = Inr (post_groups body w)"
| "step (Resume r) w = resume r w"
| "step (TimerFires r) w = timer_fires r w"
| "step (Ack r ack) w = emit_ack r ack w"
| "step (Connect s) w = Inr (on_connect s w)"
| "step (Disconnect s reason) w = Inr (on_disconnect s reason w)"
| "step (Push s p) w = on_push s p w"
| "step (LoginRequired s) w = Inr (on_login_required s w)"
| "step (LoginAck s response) w = login_ack s response w"

text \<open>A run of the process; an uncaught exception ends it.\<close>

fun run :: "event list \<Rightarrow> world \<Rightarrow> error + world" where
  "run [] w = Inr w"
| "run (ev # evs) w = (case step ev w of Inl e \<Rightarrow> Inl e | Inr w' \<Rightarrow> run evs w')"


section \<open>Vocabulary of the statements, and sample inputs\<close>

text \<open>The events that write a monitor cache.\<close>

fun is_push :: "event \<Rightarrow> bool" where
  "is_push (Push s p) = True"
| "is_push ev = False"

text \<open>
  A socket object, once \<^verbatim>\<open>io\<close> has returned it, stays where it is, and what its
  listeners captured (\<^verbatim>\<open>uri\<close>, \<^verbatim>\<open>credentials\<close>, the promise) never changes.
\<close>

definition same_socket :: "sock \<Rightarrow> sock \<Rightarrow> bool" where
  "same_socket x x' =
     (sock_uri x' = sock_uri x \<and> sock_credentials x' = sock_credentials x \<and>
      sock_promise x' = sock_promise x)"

text \<open>The fields each handler tests before anything else.\<close>

definition required_fields :: "endpoint \<Rightarrow> string list" where
  "required_fields ep =
     (case ep of
        Emit \<Rightarrow> [''uri'', ''credentials'', ''event'', ''payload'']
      | _ \<Rightarrow> [''uri'', ''credentials''])"

text \<open>
  The sample request of the specification: destination \<^verbatim>\<open>ws://h:1\<close>, event \<^verbatim>\<open>ping\<close>,
  an empty payload and a deadline of 100 ms; and two acknowledgements.
\<close>

definition demo_uri :: "json option" where
  "demo_uri = Some (JStr ''ws://h:1'')"

definition demo_credentials :: "json option" where
  "demo_credentials = Some (JObj [(''username'', JStr ''a''), (''password'', JStr ''b'')])"

definition demo_emit_body :: "json object" where
  "demo_emit_body =
     [(''uri'', JStr ''ws://h:1''),
      (''credentials'', JObj [(''username'', JStr ''a''), (''password'', JStr ''b'')]),
      (''event'', JStr ''ping''), (''payload'', JObj []), (''timeout'', JNum 100)]"

definition demo_query_body :: "json object" where
  "demo_query_body =
     [(''uri'', JStr ''ws://h:1''),
      (''credentials'', JObj [(''username'', JStr ''a''), (''password'', JStr ''b'')])]"

definition ack_ok :: json where
  "ack_ok = JObj [(''ok'', JBool True)]"

definition ack_failed :: json where
  "ack_failed = JObj [(''ok'', JBool False), (''msg'', JStr ''no'')]"


text \<open>
  The pushes of the specification's scenario (a full list, an upsert of entity 1, then its
  deletion), with an upsert of a second entity in between.
\<close>

definition demo_pushes :: "push list" where
  "demo_pushes =
     [MonitorList [(''1'', JObj [(''id'', JNum 1), (''type'', JStr ''group''), (''name'', JStr ''G'')])],
      UpdateMonitorIntoList
        [(''x'', JObj [(''id'', JNum 1), (''type'', JStr ''group''), (''name'', JStr ''G2'')])],
      UpdateMonitorIntoList
        [(''y'', JObj [(''id'', JNum 27), (''type'', JStr ''http''), (''name'', JStr ''H'')])],
      DeleteMonitorFromList (JNum 1)]"


text \<open>The sample request with a \<^verbatim>\<open>null\<close> payload.\<close>

definition null_payload_body :: "json object" where
  "null_payload_body =
     [(''uri'', JStr ''ws://h:1''),
      (''credentials'', JObj [(''username'', JStr ''a''), (''password'', JStr ''b'')]),
      (''event'', JStr ''ping''), (''payload'', JNull)]"


section \<open>Facts about the cache functions\<close>

declare digits.simps [simp del]

lemma apply_push_reference:
  assumes "well_formed p" and "plain_key is_array p"
  shows "\<exists>c'. apply_push p (is_array, c) = Inr (still_array is_array p, c') \<and>
           map_of c' = reference_apply p (map_of c)"
proof (cases p)
  case (MonitorList data)
  then show ?thesis by simp
next
  case (UpdateMonitorIntoList data)
  with assms(1) obtain k e where d: "data = [(k, e)]" and e: "e \<noteq> JNull"
    by (cases "UpdateMonitorIntoList data" rule: well_formed.cases) auto
  from assms(2) UpdateMonitorIntoList d
  have k: "entity_id e \<noteq> ''__proto__''" "\<not> (is_array \<and> entity_id e = ''length'')"
    by simp_all
  show ?thesis
  proof (cases e)
    case (JObj fs)
    then show ?thesis
      using UpdateMonitorIntoList d k
      by (auto simp: first_value_def entity_id_def set_monitor_def update_conv')
  qed (use UpdateMonitorIntoList d e k in
      \<open>auto simp: first_value_def entity_id_def set_monitor_def update_conv'\<close>)
next
  case (DeleteMonitorFromList i)
  with assms(2) show ?thesis by (auto simp: delete_monitor_def delete_conv')
qed

lemma apply_pushes_reference:
  "plain_pushes is_array ps \<Longrightarrow>
   \<exists>is_array' c'. apply_pushes ps (is_array, c) = Inr (is_array', c') \<and>
      map_of c' = reference_replay ps (map_of c)"
proof (induction ps arbitrary: is_array c)
  case Nil
  then show ?case by simp
next
  case (Cons p ps)
  then have "well_formed p" "plain_key is_array p" "plain_pushes (still_array is_array p) ps"
    by simp_all
  from apply_push_reference [OF this(1,2), of c] obtain c1
    where 1: "apply_push p (is_array, c) = Inr (still_array is_array p, c1)"
      and 2: "map_of c1 = reference_apply p (map_of c)" by blast
  from Cons.IH [OF \<open>plain_pushes (still_array is_array p) ps\<close>, of c1] 1 2
  show ?case by auto
qed






section \<open>Facts about the registry\<close>

lemma sockets_set_request [simp]: "sockets (set_request r q w) = sockets w"
  by (simp add: set_request_def)

lemma sockets_set_sock [simp]: "sockets (set_sock s x w) = sockets w"
  by (simp add: set_sock_def)

lemma sockets_settle [simp]: "sockets (settle p v w) = sockets w"
  by (simp add: settle_def)

lemma socks_set_request [simp]: "socks (set_request r q w) = socks w"
  by (simp add: set_request_def)

lemma socks_settle [simp]: "socks (settle p v w) = socks w"
  by (simp add: settle_def)

lemma sockets_on_connect: "sockets (on_connect s w) = sockets w"
  by (simp add: on_connect_def split: option.splits)

lemma sockets_on_disconnect: "sockets (on_disconnect s reason w) = sockets w"
  by (simp add: on_disconnect_def split: option.splits)

lemma sockets_on_login_required: "sockets (on_login_required s w) = sockets w"
  by (simp add: on_login_required_def split: option.splits)

lemma sockets_login_ack: "login_ack s response w = Inr w' \<Longrightarrow> sockets w' = sockets w"
  by (auto simp: login_ack_def split: option.splits if_splits sum.splits)

lemma sockets_timer_fires: "timer_fires r w = Inr w' \<Longrightarrow> sockets w' = sockets w"
  by (auto simp: timer_fires_def split: option.splits timer.splits sum.splits)

lemma sockets_emit_ack: "emit_ack r ack w = Inr w' \<Longrightarrow> sockets w' = sockets w"
  by (auto simp: emit_ack_def split: option.splits if_splits sum.splits)

lemma sockets_resume: "resume r w = Inr w' \<Longrightarrow> sockets w' = sockets w"
  by (auto simp: resume_def emit_resume_def monitors_resume_def groups_resume_def
      split: option.splits if_splits sum.splits phase.splits promise.splits endpoint.splits)

lemma connectSocket_known:
  "map_of (sockets w) (to_key uri) = Some e \<Longrightarrow>
   connectSocket uri credentials w =
     (length (promises w), w\<lparr>promises := promises w @ [Fulfilled (socket e)]\<rparr>)"
  by (simp add: connectSocket_def)

lemma connectSocket_fresh:
  "map_of (sockets w) (to_key uri) = None \<Longrightarrow>
   connectSocket uri credentials w =
     (length (promises w),
      w\<lparr>sockets := AList.update (to_key uri)
          \<lparr>socket = length (socks w), monitors = [], monitors_is_array = True\<rparr> (sockets w),
        socks := socks w @
          [\<lparr>connected = False, sock_uri = uri, sock_credentials = credentials,
            sock_promise = length (promises w), emitted = [], logins_pending = 0\<rparr>],
        promises := promises w @ [Pending]\<rparr>)"
  by (simp add: connectSocket_def Let_def)

lemma connectSocket_keeps:
  assumes "connectSocket uri credentials w = (p, w')" and "map_of (sockets w) k = Some e"
  shows "map_of (sockets w') k = Some e"
proof (cases "map_of (sockets w) (to_key uri)")
  case None
  with assms(2) have "to_key uri \<noteq> k" by auto
  with assms None show ?thesis
    by (auto simp: connectSocket_fresh update_conv')
next
  case (Some e0)
  with assms show ?thesis by (auto simp: connectSocket_known)
qed



lemma post_emit_cases:
  "post_emit body w = w' \<Longrightarrow>
   sockets w' = sockets w \<and> socks w' = socks w \<or>
   (\<exists>p w1. connectSocket (map_of body ''uri'') (map_of body ''credentials'') w = (p, w1)
      \<and> sockets w' = sockets w1 \<and> socks w' = socks w1)"
  by (auto simp: post_emit_def Let_def split: prod.splits if_splits)

lemma post_query_cases:
  "post_query ep body w = w' \<Longrightarrow>
   sockets w' = sockets w \<and> socks w' = socks w \<or>
   (\<exists>p w1. connectSocket (map_of body ''uri'') (map_of body ''credentials'') w = (p, w1)
      \<and> sockets w' = sockets w1 \<and> socks w' = socks w1)"
  by (auto simp: post_query_def Let_def split: prod.splits if_splits)

lemma step_post_cases:
  "step (Post ep body) w = Inr w' \<Longrightarrow>
   sockets w' = sockets w \<and> socks w' = socks w \<or>
   (\<exists>p w1. connectSocket (map_of body ''uri'') (map_of body ''credentials'') w = (p, w1)
      \<and> sockets w' = sockets w1 \<and> socks w' = socks w1)"
  using post_emit_cases [of body w w'] post_query_cases [of _ body w w']
  by (cases ep) (auto simp: post_monitors_def post_groups_def)

lemma step_keeps_entry:
  assumes "step ev w = Inr w'" and "\<not> is_push ev" and "map_of (sockets w) k = Some e"
  shows "map_of (sockets w') k = Some e"
proof (cases ev)
  case (Post ep body)
  with assms step_post_cases [of ep body w w'] show ?thesis
    by (auto dest: connectSocket_keeps)
qed (use assms in \<open>auto simp: sockets_on_connect sockets_on_disconnect sockets_on_login_required
      dest: sockets_timer_fires sockets_login_ack sockets_emit_ack sockets_resume\<close>)

lemma on_push_entry:
  assumes "on_push s p w = Inr w'" and "map_of (sockets w) k = Some e"
  shows "\<exists>e'. map_of (sockets w') k = Some e' \<and> socket e' = socket e"
  using assms
  by (auto simp: on_push_def update_conv' split: option.splits sum.splits prod.splits)


lemma step_entry:
  assumes "step ev w = Inr w'" and "map_of (sockets w) k = Some e"
  shows "\<exists>e'. map_of (sockets w') k = Some e' \<and> socket e' = socket e"
proof (cases "is_push ev")
  case True
  then obtain s p where "ev = Push s p" by (cases ev) auto
  with assms show ?thesis by (auto dest: on_push_entry)
next
  case False
  with assms show ?thesis by (auto dest: step_keeps_entry)
qed


lemma run_entry:
  "run evs w = Inr w' \<Longrightarrow> map_of (sockets w) k = Some e \<Longrightarrow>
   \<exists>e'. map_of (sockets w') k = Some e' \<and> socket e' = socket e"
proof (induction evs arbitrary: w e)
  case Nil
  then show ?case by simp
next
  case (Cons ev evs)
  then obtain w1 where s: "step ev w = Inr w1" and r: "run evs w1 = Inr w'"
    by (auto split: sum.splits)
  from step_entry [OF s Cons.prems(2)] obtain e1
    where "map_of (sockets w1) k = Some e1" "socket e1 = socket e" by blast
  with Cons.IH [OF r] show ?case by auto
qed

lemma run_keeps_entry:
  "run evs w = Inr w' \<Longrightarrow> \<forall>ev\<in>set evs. \<not> is_push ev \<Longrightarrow> map_of (sockets w) k = Some e \<Longrightarrow>
   map_of (sockets w') k = Some e"
proof (induction evs arbitrary: w)
  case Nil
  then show ?case by simp
next
  case (Cons ev evs)
  then obtain w1 where s: "step ev w = Inr w1" and r: "run evs w1 = Inr w'"
    by (auto split: sum.splits)
  from Cons.prems have "\<not> is_push ev" by simp
  from step_keeps_entry [OF s this Cons.prems(3)] Cons.IH [OF r] Cons.prems(2)
  show ?case by simp
qed


section \<open>Facts about the socket objects\<close>

lemma same_socket_refl [simp]: "same_socket x x"
  by (simp add: same_socket_def)















lemma on_push_apply:
  assumes "nth_opt (socks w) s = Some x"
    and "map_of (sockets w) (to_key (sock_uri x)) = Some e"
    and "apply_push p (monitors_is_array e, monitors e) = Inr (a, c)"
  shows "on_push s p w =
     Inr (w\<lparr>sockets := AList.update (to_key (sock_uri x))
            (e\<lparr>monitors := c, monitors_is_array := a\<rparr>) (sockets w)\<rparr>)"
  using assms by (simp add: on_push_def)

lemmas model_defs =
  init_world_def nth_opt_def set_request_def set_sock_def settle_def connectSocket_def
  on_connect_def on_disconnect_def on_push_def on_login_required_def login_ack_def
  post_emit_def post_query_def post_monitors_def post_groups_def emit_resume_def
  monitors_resume_def groups_resume_def resume_def timer_fires_def emit_ack_def
  first_value_def list_entities_def list_groups_def respond_def set_monitor_def
  delete_monitor_def Let_def
  demo_uri_def demo_credentials_def demo_emit_body_def demo_query_body_def
  ack_ok_def ack_failed_def emit_required_def uri_required_def disconnected_def


section \<open>C1: a failed establishment and the registry\<close>

text \<open>
  C1, as amended. \<^verbatim>\<open>connectSocket\<close> stores the entry of a new destination before the
  establishment begins, and nothing removes an entry. So when the establishment that a
  call started for a destination without an entry fails (its promise is rejected, by a
  rejected login or by a disconnect), the registry still holds the entry with the socket
  that call created, and a later call for the same destination, with any credentials,
  is fulfilled at once with that socket and changes nothing else: it opens no socket.
\<close>

theorem failed_establishment_keeps_entry:
  assumes "map_of (sockets w) (to_key uri) = None"
    and "connectSocket uri credentials w = (p, w1)"
    and "run evs w1 = Inr w2"
    and "nth_opt (promises w2) p = Some (Rejected reason)"
  shows "(\<exists>e. map_of (sockets w2) (to_key uri) = Some e \<and> socket e = length (socks w)) \<and>
         connectSocket uri credentials' w2 =
           (length (promises w2), w2\<lparr>promises := promises w2 @ [Fulfilled (length (socks w))]\<rparr>)"
proof -
  from assms(1,2) have "map_of (sockets w1) (to_key uri) = Some \<lparr>socket = length (socks w), monitors = [], monitors_is_array = True\<rparr>"
    by (auto simp: connectSocket_fresh update_conv')
  from run_entry [OF assms(3) this] obtain e
    where e: "map_of (sockets w2) (to_key uri) = Some e" "socket e = length (socks w)" by auto
  then show ?thesis by (auto simp: connectSocket_known)
qed

text \<open>The amended statement at the sample request, whose login the server rejects.\<close>

theorem failed_establishment_keeps_entry_witness:
  "\<exists>w2. run [Connect 0, LoginRequired 0, LoginAck 0 (Some ack_failed)]
           (snd (connectSocket demo_uri demo_credentials init_world)) = Inr w2
      \<and> nth_opt (promises w2) 0 = Some (Rejected (JStr ''Login failed''))
      \<and> connectSocket demo_uri None w2 = (1, w2\<lparr>promises := promises w2 @ [Fulfilled 0]\<rparr>)"
proof -
  have h1: "map_of (sockets init_world) (to_key demo_uri) = None"
    by (simp add: model_defs)
  have h2: "connectSocket demo_uri demo_credentials init_world =
      (0, snd (connectSocket demo_uri demo_credentials init_world))"
    by (simp add: model_defs)
  obtain w2 where h3: "run [Connect 0, LoginRequired 0, LoginAck 0 (Some ack_failed)]
           (snd (connectSocket demo_uri demo_credentials init_world)) = Inr w2"
    and h4: "nth_opt (promises w2) 0 = Some (Rejected (JStr ''Login failed''))"
    and h5: "length (promises w2) = 1"
    by (simp add: model_defs)
  from failed_establishment_keeps_entry [OF h1 h2 h3 h4, of None] h3 h4 h5 show ?thesis
    by (simp add: init_world_def)
qed

text \<open>
  C1 as stated fails: after the login of the sample request is rejected, the promise of
  the establishment is rejected and the registry holds the entry of the destination; a
  second request for it gets a promise fulfilled with socket 0, and there is still one
  socket.
\<close>

theorem failed_establishment_counterexample:
  "map_sum id promises
     (run [Post Emit demo_emit_body, Connect 0, LoginRequired 0, LoginAck 0 (Some ack_failed)]
        init_world) = Inr [Rejected (JStr ''Login failed'')]
   \<and> map_sum id sockets
     (run [Post Emit demo_emit_body, Connect 0, LoginRequired 0, LoginAck 0 (Some ack_failed)]
        init_world) = Inr [(''ws://h:1'', \<lparr>socket = 0, monitors = [], monitors_is_array = True\<rparr>)]
   \<and> map_sum id promises
     (run [Post Emit demo_emit_body, Connect 0, LoginRequired 0, LoginAck 0 (Some ack_failed),
           Post Emit demo_emit_body] init_world)
       = Inr [Rejected (JStr ''Login failed''), Fulfilled 0]
   \<and> map_sum id (length \<circ> socks)
     (run [Post Emit demo_emit_body, Connect 0, LoginRequired 0, LoginAck 0 (Some ack_failed),
           Post Emit demo_emit_body] init_world) = Inr 1"
  by (simp add: model_defs)


section \<open>C2: acknowledgement against deadline\<close>

text \<open>
  When the acknowledgement of an unanswered request comes first, its callback clears the
  timer and sends the response, and neither the timer nor another acknowledgement changes
  the state afterwards. When the timer comes first, it sends the 504 and does not fire
  again.
\<close>

lemma ack_first_disarms_timer:
  assumes "nth_opt (requests w) r = Some q"
    and "phase q = AwaitAck"
    and "timeoutTimer q = Armed t"
    and "res q = []"
    and "get_prop (Some a) ''ok'' = Inr ok"
  shows "(\<exists>w'. step (Ack r (Some a)) w = Inr w' \<and>
           nth_opt (requests w') r =
             Some (q\<lparr>res := [(if \<not> truthy ok then 400 else 200, a)],
                     timeoutTimer := Cleared, phase := Finished\<rparr>) \<and>
           step (TimerFires r) w' = Inr w' \<and>
           (\<forall>a'. step (Ack r a') w' = Inr w')) \<and>
         (\<exists>w'. step (TimerFires r) w = Inr w' \<and>
           nth_opt (requests w') r =
             Some (q\<lparr>res := [(504, json_object [(''error'', Some (JStr ''ACK timeout'')),
                                                  (''event'', req_event q)])],
                     timeoutTimer := Fired\<rparr>) \<and>
           step (TimerFires r) w' = Inr w')"
  using assms
  by (auto simp: emit_ack_def timer_fires_def respond_def nth_opt_def set_request_def
      split: if_splits)

text \<open>
  C2. The claim asks that, once a pending emit-with-ack request has resolved, a later
  acknowledgement or timer firing for it is a no-op, and that a late acknowledgement after
  the timeout never raises or writes a second response. The code at the sample request,
  whose acknowledgement arrives after the deadline: the timer callback sends the 504, and
  the acknowledgement callback, which nothing disarmed, writes to the same \<^verbatim>\<open>res\<close>, where
  Express raises; the exception is not caught.
\<close>

theorem late_ack_raises_after_timeout:
  "map_sum id (map res \<circ> requests)
     (run [Post Emit demo_emit_body, Connect 0, LoginRequired 0, LoginAck 0 (Some ack_ok),
           Resume 0, TimerFires 0] init_world)
     = Inr [[(504, JObj [(''error'', JStr ''ACK timeout''), (''event'', JStr ''ping'')])]]
   \<and> run [Post Emit demo_emit_body, Connect 0, LoginRequired 0, LoginAck 0 (Some ack_ok),
           Resume 0, TimerFires 0, Ack 0 (Some ack_ok)] init_world
     = Inl HeadersSent"
  by (simp add: model_defs)

text \<open>
  The same exception on the path of the 503, which returns without clearing the timer: the
  second sample request is answered 503 while the socket is connecting, and its timer
  fires afterwards.
\<close>

lemma timer_raises_after_503:
  "map_sum id (map res \<circ> requests)
     (run [Post Emit demo_emit_body, Resume 0, Post Emit demo_emit_body, Resume 1] init_world)
     = Inr [[], [(503, JObj [(''error'', JStr ''Socket.IO disconnected'')])]]
   \<and> run [Post Emit demo_emit_body, Resume 0, Post Emit demo_emit_body, Resume 1,
           TimerFires 1] init_world
     = Inl HeadersSent"
  by (simp add: model_defs)


section \<open>C3: one entry per destination, reused\<close>




section \<open>C4: the cache against the reference mapping\<close>

text \<open>
  C4, as amended. For every sequence of pushes of the transport interface (full list,
  upsert with a single enveloped value, delete) that a socket delivers and that names no
  key which is not plain on the cache (no upsert of the id \<^verbatim>\<open>__proto__\<close>, and neither
  upsert nor delete of \<^verbatim>\<open>length\<close> before the first full list), the three listeners
  applied in arrival order do not raise, and they leave the cache of the socket's
  destination with exactly the contents of the reference mapping after the same sequence:
  a full list replaces it, an upsert writes the enveloped value at its id over any entry
  there, and a delete removes the key, whether it is present or not.
\<close>

theorem cache_sync_matches_reference:
  assumes "nth_opt (socks w) s = Some x"
    and "map_of (sockets w) (to_key (sock_uri x)) = Some e"
    and "plain_pushes (monitors_is_array e) ps"
  shows "\<exists>w' e'. run (map (Push s) ps) w = Inr w' \<and>
           map_of (sockets w') (to_key (sock_uri x)) = Some e' \<and>
           apply_pushes ps (monitors_is_array e, monitors e) =
             Inr (monitors_is_array e', monitors e') \<and>
           map_of (monitors e') = reference_replay ps (map_of (monitors e))"
  using assms
proof (induction ps arbitrary: w e)
  case Nil
  then show ?case by simp
next
  case (Cons p ps)
  from Cons.prems(3) have wf: "well_formed p" and pk: "plain_key (monitors_is_array e) p"
    and rest: "plain_pushes (still_array (monitors_is_array e) p) ps" by simp_all
  from apply_push_reference [OF wf pk, of "monitors e"] obtain c
    where c: "apply_push p (monitors_is_array e, monitors e) =
        Inr (still_array (monitors_is_array e) p, c)"
      and m: "map_of c = reference_apply p (map_of (monitors e))" by blast
  define e1 where
    "e1 = e\<lparr>monitors := c, monitors_is_array := still_array (monitors_is_array e) p\<rparr>"
  define w1 where "w1 = w\<lparr>sockets := AList.update (to_key (sock_uri x)) e1 (sockets w)\<rparr>"
  have s: "on_push s p w = Inr w1"
    unfolding w1_def e1_def by (rule on_push_apply [OF Cons.prems(1,2) c])
  have x1: "nth_opt (socks w1) s = Some x"
    using Cons.prems(1) by (simp add: w1_def nth_opt_def)
  have k1: "map_of (sockets w1) (to_key (sock_uri x)) = Some e1"
    by (simp add: w1_def update_conv')
  have rest1: "plain_pushes (monitors_is_array e1) ps"
    using rest by (simp add: e1_def)
  from Cons.IH [OF x1 k1 rest1] obtain w' e'
    where "run (map (Push s) ps) w1 = Inr w'"
      and "map_of (sockets w') (to_key (sock_uri x)) = Some e'"
      and "apply_pushes ps (monitors_is_array e1, monitors e1) =
             Inr (monitors_is_array e', monitors e')"
      and "map_of (monitors e') = reference_replay ps (map_of (monitors e1))"
    by auto
  with s c m show ?case by (simp add: e1_def)
qed

text \<open>C4, as amended, at the sample pushes on the socket of the sample destination.\<close>

theorem cache_sync_matches_reference_witness:
  "\<exists>w' e'. run (map (Push 0) demo_pushes)
               (snd (connectSocket demo_uri demo_credentials init_world)) = Inr w'
      \<and> map_of (sockets w') ''ws://h:1'' = Some e'
      \<and> monitors e' = [(''27'', JObj [(''id'', JNum 27), (''type'', JStr ''http''), (''name'', JStr ''H'')])]
      \<and> map_of (monitors e') = reference_replay demo_pushes Map.empty"
proof -
  let ?w = "snd (connectSocket demo_uri demo_credentials init_world)"
  let ?x = "\<lparr>connected = False, sock_uri = demo_uri, sock_credentials = demo_credentials,
             sock_promise = 0, emitted = [], logins_pending = 0\<rparr>"
  let ?e = "\<lparr>socket = 0, monitors = [], monitors_is_array = True\<rparr>"
  have h1: "nth_opt (socks ?w) 0 = Some ?x" by (simp add: model_defs)
  have h2: "map_of (sockets ?w) (to_key (sock_uri ?x)) = Some ?e" by (simp add: model_defs)
  have h3: "plain_pushes (monitors_is_array ?e) demo_pushes"
    by (simp add: demo_pushes_def entity_id_def digits.simps digit_char_def)
  have h4: "apply_pushes demo_pushes (True, []) =
      Inr (False, [(''27'', JObj [(''id'', JNum 27), (''type'', JStr ''http''), (''name'', JStr ''H'')])])"
    by (simp add: demo_pushes_def first_value_def set_monitor_def delete_monitor_def
        digits.simps digit_char_def)
  from cache_sync_matches_reference [OF h1 h2 h3] h4 show ?thesis
    by (auto simp: demo_uri_def)
qed

text \<open>
  C4 as stated fails. On the new entry of the sample destination, an upsert of an entity
  whose id is \<^verbatim>\<open>length\<close> raises a RangeError, where the reference mapping holds the entity
  at that id; and an upsert of an entity whose id is \<^verbatim>\<open>__proto__\<close> leaves the cache
  empty, where the reference mapping holds the entity.
\<close>

theorem cache_sync_counterexample:
  "run [Push 0 (UpdateMonitorIntoList [(''x'', JObj [(''id'', JStr ''length'')])])]
     (snd (connectSocket demo_uri demo_credentials init_world)) = Inl RangeError
   \<and> reference_replay [UpdateMonitorIntoList [(''x'', JObj [(''id'', JStr ''length'')])]]
       Map.empty ''length'' = Some (JObj [(''id'', JStr ''length'')])
   \<and> map_sum id (map (monitors \<circ> snd) \<circ> sockets)
       (run [Push 0 (UpdateMonitorIntoList [(''x'', JObj [(''id'', JStr ''__proto__'')])])]
          (snd (connectSocket demo_uri demo_credentials init_world))) = Inr [[]]
   \<and> reference_replay [UpdateMonitorIntoList [(''x'', JObj [(''id'', JStr ''__proto__'')])]]
       Map.empty ''__proto__'' = Some (JObj [(''id'', JStr ''__proto__'')])"
  by (simp add: model_defs entity_id_def)


section \<open>C5: emitting on a socket that is not connected\<close>

text \<open>
  C5. When the \<^verbatim>\<open>POST /emit\<close> handler continues with a socket that is not connected, it
  writes the 503 response \<^verbatim>\<open>Socket.IO disconnected\<close> and ends; no socket has a new emit.
  (On a request that its timer has answered in the meantime, the write raises, and there
  is no emit either.)
\<close>

theorem emit_on_disconnected_socket:
  assumes "nth_opt (requests w) r = Some q"
    and "endpoint q = Emit"
    and "phase q = AwaitConnect p"
    and "nth_opt (promises w) p = Some (Fulfilled s)"
    and "nth_opt (socks w) s = Some x"
    and "\<not> connected x"
  shows "step (Resume r) w =
           (if res q = []
            then Inr (set_request r
                        (q\<lparr>res := res q @ [(503, disconnected)], phase := Finished\<rparr>) w)
            else Inl HeadersSent)
         \<and> socks (set_request r (q\<lparr>res := res q @ [(503, disconnected)], phase := Finished\<rparr>) w)
             = socks w"
  using assms by (simp add: resume_def emit_resume_def respond_def)

text \<open>
  C5 at a second sample request, which arrives while the socket of the first is still
  connecting.
\<close>

theorem emit_on_disconnected_socket_witness:
  "map_sum id (map res \<circ> requests)
     (run [Post Emit demo_emit_body, Resume 0, Post Emit demo_emit_body, Resume 1] init_world)
     = Inr [[], [(503, JObj [(''error'', JStr ''Socket.IO disconnected'')])]]
   \<and> map_sum id (map emitted \<circ> socks)
     (run [Post Emit demo_emit_body, Resume 0, Post Emit demo_emit_body, Resume 1] init_world)
     = Inr [[]]"
proof -
  obtain w q x where h0: "run [Post Emit demo_emit_body, Resume 0, Post Emit demo_emit_body] init_world = Inr w"
    and h1: "nth_opt (requests w) 1 = Some q"
    and h2: "endpoint q = Emit"
    and h3: "phase q = AwaitConnect 1"
    and h4: "nth_opt (promises w) 1 = Some (Fulfilled 0)"
    and h5: "nth_opt (socks w) 0 = Some x"
    and h6: "\<not> connected x"
    and h7: "map emitted (socks w) = [[]]"
    and h8: "map res (requests w) = [[], []]" and h9: "res q = []"
    by (simp add: model_defs)
  have r: "run [Post Emit demo_emit_body, Resume 0, Post Emit demo_emit_body, Resume 1] init_world
      = (case run [Post Emit demo_emit_body, Resume 0, Post Emit demo_emit_body] init_world of
           Inl e \<Rightarrow> Inl e | Inr w \<Rightarrow> step (Resume 1) w)"
    by (simp add: post_emit_def split: sum.splits)
  from h8 obtain q0 q1 where rq: "requests w = [q0, q1]" "res q0 = []"
    by (cases "requests w"; cases "tl (requests w)") auto
  from emit_on_disconnected_socket [OF h1 h2 h3 h4 h5 h6] h0 h7 h9 rq r show ?thesis
    by (simp add: set_request_def disconnected_def)
qed


section \<open>C6: the status of an acknowledged request\<close>

text \<open>
  C6. When the acknowledgement of an emitted event arrives with a boolean \<^verbatim>\<open>ok\<close> flag
  for a request that has not been answered, the response sent carries the acknowledgement
  as it is, with status 400 if the flag is false and with status 200 (\<^verbatim>\<open>res.json\<close>)
  otherwise.
\<close>

theorem ack_status_follows_ok_flag:
  assumes "nth_opt (requests w) r = Some q"
    and "phase q = AwaitAck"
    and "res q = []"
    and "get_prop (Some a) ''ok'' = Inr (Some (JBool b))"
  shows "step (Ack r (Some a)) w =
           Inr (set_request r
                  (q\<lparr>res := [(if b then 200 else 400, a)],
                     timeoutTimer := clearTimeout (timeoutTimer q), phase := Finished\<rparr>) w)"
  using assms by (simp add: emit_ack_def respond_def)

text \<open>C6 at the sample request, which the server acknowledges with a failure.\<close>

theorem ack_status_follows_ok_flag_witness:
  "map_sum id (map res \<circ> requests)
     (run [Post Emit demo_emit_body, Connect 0, LoginRequired 0, LoginAck 0 (Some ack_ok),
           Resume 0, Ack 0 (Some ack_failed)] init_world)
     = Inr [[(400, JObj [(''ok'', JBool False), (''msg'', JStr ''no'')])]]"
proof -
  obtain w q where h0: "run [Post Emit demo_emit_body, Connect 0, LoginRequired 0,
        LoginAck 0 (Some ack_ok), Resume 0] init_world = Inr w"
    and h1: "nth_opt (requests w) 0 = Some q"
    and h2: "phase q = AwaitAck"
    and h3: "res q = []" and h4: "length (requests w) = 1"
    by (simp add: model_defs)
  have h5: "get_prop (Some ack_failed) ''ok'' = Inr (Some (JBool False))"
    by (simp add: ack_failed_def)
  have r: "run [Post Emit demo_emit_body, Connect 0, LoginRequired 0, LoginAck 0 (Some ack_ok),
           Resume 0, Ack 0 (Some ack_failed)] init_world
      = (case run [Post Emit demo_emit_body, Connect 0, LoginRequired 0, LoginAck 0 (Some ack_ok),
           Resume 0] init_world of Inl e \<Rightarrow> Inl e | Inr w \<Rightarrow> step (Ack 0 (Some ack_failed)) w)"
    by (simp split: sum.splits)
  from h4 obtain q0 where rq: "requests w = [q0]" by (cases "requests w") auto
  from ack_status_follows_ok_flag [OF h1 h2 h3 h5] h0 h1 rq r show ?thesis
    by (simp add: set_request_def ack_failed_def nth_opt_def)
qed


section \<open>C7: a missing required field\<close>

text \<open>
  C7. On each of the three endpoints, a request whose body lacks a required field is
  answered 400 with the endpoint's error message, and the handler ends there: the state
  changes by the recorded request alone, so the registry, the sockets and the promises are
  as before, and no timer is armed.
\<close>

theorem missing_field_rejected:
  assumes "f \<in> set (required_fields ep)" and "map_of body f = None"
  shows "\<exists>q. step (Post ep body) w = Inr (w\<lparr>requests := requests w @ [q]\<rparr>) \<and>
           res q = [(400, if ep = Emit then emit_required else uri_required)] \<and>
           phase q = Finished \<and> timeoutTimer q = NoTimer"
proof (cases ep)
  case Emit
  let ?q = "\<lparr>endpoint = Emit, req_uri = map_of body ''uri'', req_event = map_of body ''event'',
             req_payload = map_of body ''payload'', res = [(400, emit_required)],
             timeoutTimer = NoTimer, phase = Finished\<rparr>"
  from Emit assms have "\<not> truthy (map_of body ''uri'') \<or> \<not> truthy (map_of body ''credentials'')
      \<or> \<not> truthy (map_of body ''event'') \<or> \<not> truthy (map_of body ''payload'')"
    by (auto simp: required_fields_def)
  then have "step (Post Emit body) w = Inr (w\<lparr>requests := requests w @ [?q]\<rparr>)"
    by (simp add: post_emit_def Let_def)
  with Emit show ?thesis by (intro exI [of _ ?q]) simp
next
  case Monitors
  let ?q = "\<lparr>endpoint = Monitors, req_uri = map_of body ''uri'', req_event = None,
             req_payload = None, res = [(400, uri_required)],
             timeoutTimer = NoTimer, phase = Finished\<rparr>"
  from Monitors assms
  have "\<not> truthy (map_of body ''uri'') \<or> \<not> truthy (map_of body ''credentials'')"
    by (auto simp: required_fields_def)
  then have "step (Post Monitors body) w = Inr (w\<lparr>requests := requests w @ [?q]\<rparr>)"
    by (simp add: post_monitors_def post_query_def Let_def)
  with Monitors show ?thesis by (intro exI [of _ ?q]) simp
next
  case Groups
  let ?q = "\<lparr>endpoint = Groups, req_uri = map_of body ''uri'', req_event = None,
             req_payload = None, res = [(400, uri_required)],
             timeoutTimer = NoTimer, phase = Finished\<rparr>"
  from Groups assms
  have "\<not> truthy (map_of body ''uri'') \<or> \<not> truthy (map_of body ''credentials'')"
    by (auto simp: required_fields_def)
  then have "step (Post Groups body) w = Inr (w\<lparr>requests := requests w @ [?q]\<rparr>)"
    by (simp add: post_groups_def post_query_def Let_def)
  with Groups show ?thesis by (intro exI [of _ ?q]) simp
qed

text \<open>C7 at a \<^verbatim>\<open>POST /groups\<close> without \<^verbatim>\<open>uri\<close>, in the initial state.\<close>

theorem missing_field_rejected_witness:
  "map_sum id (map res \<circ> requests)
     (step (Post Groups [(''credentials'', JObj [(''username'', JStr ''a''), (''password'', JStr ''b'')])])
        init_world)
     = Inr [[(400, JObj [(''error'', JStr ''`uri` and `credentials` are required'')])]]
   \<and> map_sum id sockets
     (step (Post Groups [(''credentials'', JObj [(''username'', JStr ''a''), (''password'', JStr ''b'')])])
        init_world) = Inr []
   \<and> map_sum id socks
     (step (Post Groups [(''credentials'', JObj [(''username'', JStr ''a''), (''password'', JStr ''b'')])])
        init_world) = Inr []"
proof -
  have h1: "''uri'' \<in> set (required_fields Groups)" by (simp add: required_fields_def)
  have h2: "map_of [(''credentials'', JObj [(''username'', JStr ''a''), (''password'', JStr ''b'')])]
      ''uri'' = None" by simp
  from missing_field_rejected [OF h1 h2, of init_world] show ?thesis
    by (auto simp: init_world_def uri_required_def)
qed


section \<open>C8: listGroups against listEntities\<close>




section \<open>C9: the cache of a new entry\<close>

text \<open>
  C9. The entry that \<^verbatim>\<open>connectSocket\<close> creates for a destination has an empty cache,
  whose listing is empty; and as long as no push has been applied, a \<^verbatim>\<open>POST /monitors\<close>
  for that destination that continues with its socket connected answers with the empty
  array (a write to a response already sent raises, as every write does). (\<open>w1\<close> is any state with the registry the call left, such as the state in
  which the calling handler has recorded its request.)
\<close>

theorem fresh_entry_lists_nothing:
  assumes "map_of (sockets w) (to_key uri) = None"
    and "connectSocket uri credentials w = (p, w0)"
    and "sockets w1 = sockets w0"
    and "list_all (\<lambda>ev. \<not> is_push ev) evs"
    and "run evs w1 = Inr w2"
    and "nth_opt (requests w2) r = Some q"
    and "endpoint q = Monitors"
    and "req_uri q = uri"
    and "phase q = AwaitConnect p'"
    and "nth_opt (promises w2) p' = Some (Fulfilled s)"
    and "nth_opt (socks w2) s = Some x"
    and "connected x"
  shows "map_of (sockets w0) (to_key uri) = Some \<lparr>socket = length (socks w), monitors = [], monitors_is_array = True\<rparr>
         \<and> list_entities (monitors \<lparr>socket = length (socks w), monitors = [], monitors_is_array = True\<rparr>) = []
         \<and> step (Resume r) w2 =
             (if res q = []
              then Inr (set_request r
                          (q\<lparr>res := res q @ [(200, JArr [])], phase := Finished\<rparr>) w2)
              else Inl HeadersSent)"
proof -
  from assms(1,2) have e0: "map_of (sockets w0) (to_key uri) = Some \<lparr>socket = length (socks w), monitors = [], monitors_is_array = True\<rparr>"
    by (auto simp: connectSocket_fresh update_conv')
  with assms(3) have "map_of (sockets w1) (to_key uri) = Some \<lparr>socket = length (socks w), monitors = [], monitors_is_array = True\<rparr>"
    by simp
  from run_keeps_entry [OF assms(5) _ this] assms(4)
  have "map_of (sockets w2) (to_key uri) = Some \<lparr>socket = length (socks w), monitors = [], monitors_is_array = True\<rparr>"
    by (simp add: list_all_iff)
  with assms e0 show ?thesis
    by (simp add: resume_def monitors_resume_def list_entities_def respond_def)
qed

text \<open>C9 at the sample destination: the request that creates the entry lists nothing.\<close>

theorem fresh_entry_lists_nothing_witness:
  "map_sum id (map res \<circ> requests)
     (run [Post Monitors demo_query_body, Connect 0, LoginRequired 0, LoginAck 0 (Some ack_ok),
           Resume 0] init_world) = Inr [[(200, JArr [])]]"
proof -
  let ?w0 = "snd (connectSocket demo_uri demo_credentials init_world)"
  let ?w1 = "post_monitors demo_query_body init_world"
  have h1: "map_of (sockets init_world) (to_key demo_uri) = None" by (simp add: model_defs)
  have h2: "connectSocket demo_uri demo_credentials init_world = (0, ?w0)" by (simp add: model_defs)
  have h3: "sockets ?w1 = sockets ?w0" by (simp add: model_defs)
  have h4: "list_all (\<lambda>ev. \<not> is_push ev) [Connect 0, LoginRequired 0, LoginAck 0 (Some ack_ok)]"
    by simp
  obtain w2 q x where h5: "run [Connect 0, LoginRequired 0, LoginAck 0 (Some ack_ok)] ?w1 = Inr w2"
    and h6: "nth_opt (requests w2) 0 = Some q"
    and h7: "endpoint q = Monitors"
    and h8: "req_uri q = demo_uri"
    and h9: "phase q = AwaitConnect 0"
    and h10: "nth_opt (promises w2) 0 = Some (Fulfilled 0)"
    and h11: "nth_opt (socks w2) 0 = Some x"
    and h12: "connected x"
    and h13: "res q = []" and h14: "length (requests w2) = 1"
    by (simp add: model_defs)
  have r: "run [Post Monitors demo_query_body, Connect 0, LoginRequired 0, LoginAck 0 (Some ack_ok),
           Resume 0] init_world
      = (case run [Connect 0, LoginRequired 0, LoginAck 0 (Some ack_ok)] ?w1 of
           Inl e \<Rightarrow> Inl e | Inr w \<Rightarrow> step (Resume 0) w)"
    by (simp split: sum.splits)
  from h14 obtain q0 where rq: "requests w2 = [q0]" by (cases "requests w2") auto
  from fresh_entry_lists_nothing [OF h1 h2 h3 h4 h5 h6 h7 h8 h9 h10 h11 h12] h5 h13 rq r
  show ?thesis
    by (simp add: set_request_def)
qed


section \<open>C10: a required field that is present but falsy\<close>

text \<open>
  C10. \<^verbatim>\<open>POST /emit\<close> answers 400, and does nothing else, when one of its four required
  fields is present with a falsy value; \<^verbatim>\<open>0\<close>, \<^verbatim>\<open>false\<close>, \<^verbatim>\<open>null\<close> and the empty
  string are falsy, and \<^verbatim>\<open>null\<close> is a payload for which \<^verbatim>\<open>payload ?? {}\<close> would have
  put \<^verbatim>\<open>{}\<close>.
\<close>

theorem falsy_field_rejected:
  assumes "f \<in> set (required_fields Emit)"
    and "map_of body f = Some v"
    and "\<not> truthy (Some v)"
  shows "(\<exists>q. step (Post Emit body) w = Inr (w\<lparr>requests := requests w @ [q]\<rparr>) \<and>
            res q = [(400, emit_required)] \<and> phase q = Finished \<and> timeoutTimer q = NoTimer)
         \<and> \<not> truthy (Some (JNum 0)) \<and> \<not> truthy (Some (JBool False)) \<and> \<not> truthy (Some JNull)
         \<and> \<not> truthy (Some (JStr ''''))
         \<and> nullish_default (Some JNull) = JObj []"
proof -
  let ?q = "\<lparr>endpoint = Emit, req_uri = map_of body ''uri'', req_event = map_of body ''event'',
             req_payload = map_of body ''payload'', res = [(400, emit_required)],
             timeoutTimer = NoTimer, phase = Finished\<rparr>"
  from assms have "\<not> truthy (map_of body ''uri'') \<or> \<not> truthy (map_of body ''credentials'')
      \<or> \<not> truthy (map_of body ''event'') \<or> \<not> truthy (map_of body ''payload'')"
    by (auto simp: required_fields_def)
  then have "step (Post Emit body) w = Inr (w\<lparr>requests := requests w @ [?q]\<rparr>)"
    by (simp add: post_emit_def Let_def)
  then have "\<exists>q. step (Post Emit body) w = Inr (w\<lparr>requests := requests w @ [q]\<rparr>) \<and>
            res q = [(400, emit_required)] \<and> phase q = Finished \<and> timeoutTimer q = NoTimer"
    by (intro exI [of _ ?q]) simp
  then show ?thesis by simp
qed

text \<open>C10 at the sample request with a \<^verbatim>\<open>null\<close> payload.\<close>

theorem falsy_field_rejected_witness:
  "map_sum id (map res \<circ> requests) (step (Post Emit null_payload_body) init_world)
     = Inr [[(400, JObj [(''error'',
               JStr ''`uri`, `credentials`, `event`, and `payload` are required'')])]]
   \<and> map_sum id sockets (step (Post Emit null_payload_body) init_world) = Inr []"
proof -
  have h1: "''payload'' \<in> set (required_fields Emit)" by (simp add: required_fields_def)
  have h2: "map_of null_payload_body ''payload'' = Some JNull" by (simp add: null_payload_body_def)
  have h3: "\<not> truthy (Some JNull)" by simp
  from falsy_field_rejected [OF h1 h2 h3, of init_world] show ?thesis
    by (auto simp: init_world_def emit_required_def)
qed

end
